theory Spec2Isabelle
  imports Main "HOL-Library.Word"
begin

section \<open>The event loop of tools/tui/loop.go\<close>

text \<open>
  A shallow embedding of \<^verbatim>\<open>tools/tui/loop.go\<close>. The loop object is a record
  of its data fields; the application's callbacks are kept in a record of their own
  (a callback takes the loop and returns it changed, so it cannot be a field of the loop).
  Everything the code asks of the operating system or of another package (the result of
  a write, of a wait, of opening the terminal) is an input of the model. The calls the
  loop makes to the outside (a write on the terminal's descriptor, a callback, the
  restoring of the terminal) are appended to a log, so that their number and order can
  be stated.
\<close>

subsection \<open>Data\<close>

type_synonym bytes = "char list"

text \<open>\<^verbatim>\<open>time.Time\<close> and \<^verbatim>\<open>time.Duration\<close> as integers (nanoseconds).\<close>

type_synonym time = int

type_synonym TimerId = "64 word"

datatype errno = EINTR | EAGAIN | EWOULDBLOCK | EOTHER nat

datatype error =
    EOF
  | SysError errno
  | NoControllingTerm
  | SelectFailed error
  | ExtError string
  | Panic string
  | Unmodelled

text \<open>
  \<open>EOF\<close> is \<^verbatim>\<open>io.EOF\<close>; \<open>SysError\<close> an errno returned as the error;
  \<open>NoControllingTerm\<close> the error that \<^verbatim>\<open>update_screen_size\<close> makes;
  \<open>SelectFailed\<close> the error of the wait, wrapped; \<open>ExtError\<close> an error that a
  callback or another package returns. \<open>Panic\<close> is a run-time panic (a nil pointer, an
  index out of range, a division by zero): the deferred functions still run, and the
  panic goes on to the caller. \<open>Unmodelled\<close> is no error of the program: the model
  answers it where it does not follow the source (see \<open>dispatch_scan\<close>).
\<close>

datatype Signal = SIGNULL | SIGINT | SIGTERM | SIGTSTP | SIGHUP | SIGWINCH | SIGPIPE

text \<open>The terminal handle \<^verbatim>\<open>*tty.Term\<close>: only its descriptor is used here.\<close>

datatype Term = Term (Fd: int)

text \<open>
  \<^verbatim>\<open>unix.Winsize\<close>, what \<^verbatim>\<open>GetSize\<close> returns, and the screen size.
  \<^verbatim>\<open>uint\<close> is taken as 64 bits wide.
\<close>

record Winsize =
  Row :: "16 word"
  Col :: "16 word"
  Xpixel :: "16 word"
  Ypixel :: "16 word"

record ScreenSize =
  WidthCells :: "64 word"
  HeightCells :: "64 word"
  WidthPx :: "64 word"
  HeightPx :: "64 word"
  CellWidth :: "64 word"
  CellHeight :: "64 word"
  updated :: bool

text \<open>
  A timer. The callback of the source is a function of the loop; here the timer holds a
  key, and the callbacks record maps the key to the function.
\<close>

record timer =
  interval :: int
  deadline :: time
  repeats :: bool
  tid :: TimerId
  callback :: nat

text \<open>
  \<^verbatim>\<open>TerminalStateOptions\<close> is declared in another file of the package; the
  two fields this file sets.
\<close>

record TerminalStateOptions =
  alternate_screen :: bool
  mouse_tracking :: nat

text \<open>
  The loop. \<^verbatim>\<open>timers\<close> is a slice of pointers: an entry may be nil
  (\<open>None\<close>). The escape code parser is a collaborator: what it decodes is an input of
  the model, and it is no field here. The exit code is only stored and read, never
  computed with, and is an \<open>int\<close>.
\<close>

record Loop =
  controlling_term :: "Term option"
  terminal_options :: TerminalStateOptions
  screen_size :: ScreenSize
  keep_going :: bool
  flush_write_buf :: bool
  death_signal :: Signal
  exit_code :: int
  write_buf :: bytes
  timers :: "timer option list"
  timer_id_counter :: TimerId

text \<open>
  Modelled from the spec: \<^verbatim>\<open>KeyEvent\<close> is declared in another file of the
  package. The spec gives it an identity, modifiers, a press/repeat/release kind, the
  resolved text and the mutable handled flag; the source here reads and writes
  \<^verbatim>\<open>Handled\<close> and \<^verbatim>\<open>Text\<close>.
\<close>

datatype KeyEventType = PRESS | REPEAT | RELEASE

record KeyEvent =
  Type :: KeyEventType
  Mods :: nat
  Key :: string
  Text :: string
  Handled :: bool

text \<open>The names of the callbacks, for the log.\<close>

datatype cbname =
    OnInitializeN | OnKeyEventN | OnTextN | OnResizeN | OnWriteCompleteN
  | OnRCResponseN | OnReceivedDataN | TimerCallbackN TimerId

text \<open>
  The log: one \<open>TtyWrite\<close> for each call of \<^verbatim>\<open>unix.Write\<close> on the
  terminal, with the bytes the call accepted; one \<open>Called\<close> for each callback
  invoked; and the three deferred releases of \<^verbatim>\<open>Run\<close>.
\<close>

datatype event =
    TtyWrite bytes
  | Called cbname
  | TermRestore "Term option"
  | SignalsReset
  | PipeClosed

type_synonym st = "Loop \<times> event list"

text \<open>The callbacks. A nil callback is \<open>None\<close>.\<close>

record Callbacks =
  OnInitialize :: "(Loop \<Rightarrow> (string \<times> error option) \<times> Loop) option"
  OnKeyEvent :: "(Loop \<Rightarrow> KeyEvent \<Rightarrow> error option \<times> Loop \<times> KeyEvent) option"
  OnText :: "(Loop \<Rightarrow> string \<Rightarrow> bool \<Rightarrow> bool \<Rightarrow> error option \<times> Loop) option"
  OnResize :: "(Loop \<Rightarrow> ScreenSize \<Rightarrow> ScreenSize \<Rightarrow> error option \<times> Loop) option"
  OnWriteComplete :: "(Loop \<Rightarrow> error option \<times> Loop) option"
  OnRCResponse :: "(Loop \<Rightarrow> bytes \<Rightarrow> error option \<times> Loop) option"
  OnReceivedData :: "(Loop \<Rightarrow> bytes \<Rightarrow> error option \<times> Loop) option"
  TimerCallback :: "nat \<Rightarrow> Loop \<Rightarrow> TimerId \<Rightarrow> error option \<times> Loop"

text \<open>
  The collaborators that are functions of their arguments. \<^verbatim>\<open>GetSize\<close> is a
  method with a pointer receiver, so it can be called on nil; what it does then is its
  own business.
\<close>

record Ext =
  GetSize :: "Term option \<Rightarrow> error + Winsize"
  KeyEventFromCSI :: "string \<Rightarrow> KeyEvent option"
  MatchesPressOrRepeat :: "KeyEvent \<Rightarrow> string \<Rightarrow> bool"
  SetStateEscapeCodes :: "TerminalStateOptions \<Rightarrow> bytes"
  ResetStateEscapeCodes :: "TerminalStateOptions \<Rightarrow> bytes"

subsection \<open>Reading and writing\<close>

text \<open>The argument is what \<^verbatim>\<open>unix.Read\<close> returned.\<close>

definition read_ignoring_temporary_errors :: "int \<times> errno option \<Rightarrow> int \<times> error option" where
  "read_ignoring_temporary_errors r =
     (case r of (n, err) \<Rightarrow>
        if err = Some EINTR \<or> err = Some EAGAIN \<or> err = Some EWOULDBLOCK then (0, None)
        else if n = 0 then (0, Some EOF)
        else (n, map_option SysError err))"

text \<open>The argument is what \<^verbatim>\<open>unix.Write\<close> returned.\<close>

definition write_ignoring_temporary_errors :: "int \<times> errno option \<Rightarrow> int \<times> error option" where
  "write_ignoring_temporary_errors r =
     (case r of (n, err) \<Rightarrow>
        if err = Some EINTR \<or> err = Some EAGAIN \<or> err = Some EWOULDBLOCK then (0, None)
        else if n = 0 then (0, Some EOF)
        else (n, map_option SysError err))"

definition queue_write_to_tty :: "bytes \<Rightarrow> Loop \<Rightarrow> Loop" where
  "queue_write_to_tty data l = l\<lparr>write_buf := write_buf l @ data\<rparr>"

definition QueueWriteString :: "string \<Rightarrow> Loop \<Rightarrow> Loop" where
  "QueueWriteString data l = queue_write_to_tty data l"

definition QueueWriteBytes :: "bytes \<Rightarrow> Loop \<Rightarrow> Loop" where
  "QueueWriteBytes data l = queue_write_to_tty data l"


definition Quit :: "int \<Rightarrow> Loop \<Rightarrow> Loop" where
  "Quit code l = l\<lparr>exit_code := code, keep_going := False\<rparr>"

text \<open>
  \<open>wr\<close> is \<^verbatim>\<open>unix.Write\<close> on the terminal's descriptor: given the buffer,
  the count and the errno it returns. A count beyond the buffer makes the slice
  expression \<^verbatim>\<open>write_buf[n:]\<close> panic.
\<close>

definition write_to_tty :: "(bytes \<Rightarrow> int \<times> errno option) \<Rightarrow> st \<Rightarrow> error option \<times> st" where
  "write_to_tty wr s =
     (case s of (l, tr) \<Rightarrow>
        if length (write_buf l) = 0 \<or> controlling_term l = None then (None, l, tr)
        else
          (let res = wr (write_buf l);
               tr' = tr @ [TtyWrite (take (nat (fst res)) (write_buf l))]
           in case write_ignoring_temporary_errors res of (n, err) \<Rightarrow>
                if err \<noteq> None then (err, l, tr')
                else if n \<le> 0 then (None, l, tr')
                else if int (length (write_buf l)) < n
                  then (Some (Panic ''slice bounds out of range''), l, tr')
                else
                  (let remainder = drop (nat n) (write_buf l)
                   in if length remainder > 0
                      then (None, l\<lparr>write_buf := remainder\<rparr>, tr')
                      else (None, l\<lparr>write_buf := []\<rparr>, tr'))))"

text \<open>
  One turn of the loop of \<^verbatim>\<open>flush\<close>: what \<^verbatim>\<open>selector.Wait\<close>
  returned, whether the terminal is ready to write, and \<^verbatim>\<open>unix.Write\<close>.
\<close>

record flush_in =
  f_wait :: "int \<times> error option"
  f_writable :: bool
  f_write :: "bytes \<Rightarrow> int \<times> errno option"

text \<open>
  The loop of \<^verbatim>\<open>flush\<close> ends when the buffer is empty or the two seconds
  are over. The list holds the waits that return before the deadline: when it is used
  up, the deadline has passed.
\<close>

fun flush_loop :: "flush_in list \<Rightarrow> st \<Rightarrow> error option \<times> st" where
  "flush_loop [] s = (None, s)"
| "flush_loop (f # fs) (l, tr) =
     (if \<not> length (write_buf l) > 0 then (None, l, tr)
      else case snd (f_wait f) of
             Some e \<Rightarrow> (Some e, l, tr)
           | None \<Rightarrow>
               if fst (f_wait f) > 0 \<and> f_writable f
               then (case write_to_tty (f_write f) (l, tr) of
                       (Some e, s') \<Rightarrow> (Some e, s')
                     | (None, s') \<Rightarrow> flush_loop fs s')
               else flush_loop fs (l, tr))"

definition flush :: "flush_in list \<Rightarrow> st \<Rightarrow> error option \<times> st" where
  "flush fs s =
     (if controlling_term (fst s) = None then (None, s) else flush_loop fs s)"

subsection \<open>Screen size\<close>

text \<open>
  The conversions \<^verbatim>\<open>uint(ws.Row)\<close> are \<open>ucast\<close>; an integer division by
  zero panics, after the fields before it have been stored.
\<close>

definition update_screen_size :: "Ext \<Rightarrow> Loop \<Rightarrow> error option \<times> Loop" where
  "update_screen_size x l =
     (if controlling_term l \<noteq> None then (Some NoControllingTerm, l)
      else case GetSize x (controlling_term l) of
             Inl err \<Rightarrow> (Some err, l)
           | Inr ws \<Rightarrow>
               (let s1 = (screen_size l)\<lparr>updated := True\<rparr>;
                    s2 = s1\<lparr>HeightCells := ucast (Row ws), WidthCells := ucast (Col ws)\<rparr>;
                    s3 = s2\<lparr>HeightPx := ucast (Ypixel ws), WidthPx := ucast (Xpixel ws)\<rparr>
                in if WidthCells s3 = 0
                   then (Some (Panic ''integer divide by zero''), l\<lparr>screen_size := s3\<rparr>)
                   else
                     (let s4 = s3\<lparr>CellWidth := WidthPx s3 div WidthCells s3\<rparr>
                      in if HeightCells s4 = 0
                         then (Some (Panic ''integer divide by zero''), l\<lparr>screen_size := s4\<rparr>)
                         else (None,
                           l\<lparr>screen_size := s4\<lparr>CellHeight := HeightPx s4 div HeightCells s4\<rparr>\<rparr>))))"

definition Loop_ScreenSize :: "Ext \<Rightarrow> Loop \<Rightarrow> (ScreenSize \<times> error option) \<times> Loop" where
  "Loop_ScreenSize x l =
     (if updated (screen_size l) then ((screen_size l, None), l)
      else case update_screen_size x l of
             (err, l') \<Rightarrow> ((screen_size l', err), l'))"

subsection \<open>Signal handlers\<close>

definition on_SIGINT :: "Loop \<Rightarrow> error option \<times> Loop" where
  "on_SIGINT l = (None, l\<lparr>death_signal := SIGINT, keep_going := False\<rparr>)"

definition on_SIGPIPE :: "Loop \<Rightarrow> error option \<times> Loop" where
  "on_SIGPIPE l = (None, l)"

definition on_SIGTERM :: "Loop \<Rightarrow> error option \<times> Loop" where
  "on_SIGTERM l = (None, l\<lparr>death_signal := SIGTERM, keep_going := False\<rparr>)"

definition on_SIGTSTP :: "Loop \<Rightarrow> error option \<times> Loop" where
  "on_SIGTSTP l = (None, l)"

definition on_SIGHUP :: "Loop \<Rightarrow> error option \<times> Loop" where
  "on_SIGHUP l =
     (None, l\<lparr>flush_write_buf := False, death_signal := SIGHUP, keep_going := False\<rparr>)"

definition on_SIGWINCH :: "Ext \<Rightarrow> Callbacks \<Rightarrow> st \<Rightarrow> error option \<times> st" where
  "on_SIGWINCH x cbs s =
     (case s of (l, tr) \<Rightarrow>
        (let l1 = l\<lparr>screen_size := (screen_size l)\<lparr>updated := False\<rparr>\<rparr>
         in case OnResize cbs of
              None \<Rightarrow> (None, l1, tr)
            | Some f \<Rightarrow>
                (let old_size = screen_size l1
                 in case update_screen_size x l1 of
                      (Some err, l2) \<Rightarrow> (Some err, l2, tr)
                    | (None, l2) \<Rightarrow>
                        (case f l2 old_size (screen_size l2) of
                           (err, l3) \<Rightarrow> (err, l3, tr @ [Called OnResizeN])))))"

subsection \<open>Key events and decoded input\<close>

text \<open>Lines 137 to 148 of \<^verbatim>\<open>handle_key_event\<close>: the default bindings, then the text.\<close>

definition key_defaults :: "Ext \<Rightarrow> Callbacks \<Rightarrow> KeyEvent \<Rightarrow> st \<Rightarrow> error option \<times> st \<times> KeyEvent" where
  "key_defaults x cbs ev s =
     (case s of (l, tr) \<Rightarrow>
        if MatchesPressOrRepeat x ev ''ctrl+c''
        then (case on_SIGINT l of (err, l') \<Rightarrow> (err, (l', tr), ev\<lparr>Handled := True\<rparr>))
        else if MatchesPressOrRepeat x ev ''ctrl+z''
        then (case on_SIGTSTP l of (err, l') \<Rightarrow> (err, (l', tr), ev\<lparr>Handled := True\<rparr>))
        else if Text ev \<noteq> []
        then (case OnText cbs of
                Some f \<Rightarrow>
                  (case f l (Text ev) True False of
                     (err, l') \<Rightarrow> (err, (l', tr @ [Called OnTextN]), ev))
              | None \<Rightarrow> (None, (l, tr), ev))
        else (None, (l, tr), ev))"

text \<open>
  The event is a pointer in the source: the callback may change it, and the caller sees
  the change. Here the event is returned with the loop.
\<close>

definition handle_key_event :: "Ext \<Rightarrow> Callbacks \<Rightarrow> KeyEvent \<Rightarrow> st \<Rightarrow> error option \<times> st \<times> KeyEvent" where
  "handle_key_event x cbs ev s =
     (case OnKeyEvent cbs of
        Some f \<Rightarrow>
          (case f (fst s) ev of (err, l1, ev1) \<Rightarrow>
             (let tr1 = snd s @ [Called OnKeyEventN]
              in if err \<noteq> None then (err, (l1, tr1), ev1)
                 else if Handled ev1 then (None, (l1, tr1), ev1)
                 else key_defaults x cbs ev1 (l1, tr1)))
      | None \<Rightarrow> key_defaults x cbs ev s)"

definition handle_csi :: "Ext \<Rightarrow> Callbacks \<Rightarrow> bytes \<Rightarrow> st \<Rightarrow> error option \<times> st" where
  "handle_csi x cbs raw s =
     (case KeyEventFromCSI x raw of
        Some ke \<Rightarrow> (case handle_key_event x cbs ke s of (err, s', ke') \<Rightarrow> (err, s'))
      | None \<Rightarrow> (None, s))"

definition handle_osc :: "bytes \<Rightarrow> st \<Rightarrow> error option \<times> st" where
  "handle_osc raw s = (None, s)"

definition handle_dcs :: "Callbacks \<Rightarrow> bytes \<Rightarrow> st \<Rightarrow> error option \<times> st" where
  "handle_dcs cbs raw s =
     (case OnRCResponse cbs of
        Some f \<Rightarrow>
          if take (length ''@kitty-cmd'') raw = ''@kitty-cmd''
          then (case f (fst s) (drop (length ''@kitty-cmd'') raw) of
                  (err, l') \<Rightarrow> (err, l', snd s @ [Called OnRCResponseN]))
          else (None, s)
      | None \<Rightarrow> (None, s))"

definition handle_apc :: "bytes \<Rightarrow> st \<Rightarrow> error option \<times> st" where
  "handle_apc raw s = (None, s)"

definition handle_sos :: "bytes \<Rightarrow> st \<Rightarrow> error option \<times> st" where
  "handle_sos raw s = (None, s)"

definition handle_pm :: "bytes \<Rightarrow> st \<Rightarrow> error option \<times> st" where
  "handle_pm raw s = (None, s)"

text \<open>
  The rune arrives as the string \<^verbatim>\<open>string(raw)\<close>, with what
  \<^verbatim>\<open>InBracketedPaste()\<close> answers at that moment.
\<close>

definition handle_rune :: "Callbacks \<Rightarrow> string \<Rightarrow> bool \<Rightarrow> st \<Rightarrow> error option \<times> st" where
  "handle_rune cbs raw in_paste s =
     (case OnText cbs of
        Some f \<Rightarrow>
          (case f (fst s) raw False in_paste of
             (err, l') \<Rightarrow> (err, l', snd s @ [Called OnTextN]))
      | None \<Rightarrow> (None, s))"

text \<open>What the escape code parser decodes from the bytes it is fed, one item for each handler call.\<close>

datatype decoded =
    DCSI bytes | DOSC bytes | DDCS bytes | DAPC bytes | DSOS bytes | DPM bytes
  | DRune string bool

fun dispatch_decoded :: "Ext \<Rightarrow> Callbacks \<Rightarrow> decoded \<Rightarrow> st \<Rightarrow> error option \<times> st" where
  "dispatch_decoded x cbs (DCSI raw) s = handle_csi x cbs raw s"
| "dispatch_decoded x cbs (DOSC raw) s = handle_osc raw s"
| "dispatch_decoded x cbs (DDCS raw) s = handle_dcs cbs raw s"
| "dispatch_decoded x cbs (DAPC raw) s = handle_apc raw s"
| "dispatch_decoded x cbs (DSOS raw) s = handle_sos raw s"
| "dispatch_decoded x cbs (DPM raw) s = handle_pm raw s"
| "dispatch_decoded x cbs (DRune raw in_paste) s = handle_rune cbs raw in_paste s"

text \<open>
  Modelled from the spec: \<^verbatim>\<open>escape_code_parser.Parse\<close> is not in this file.
  The spec says that the decoder is fed the bytes, invokes the registered per-category
  callbacks synchronously during the feed, and returns an error. Here the handlers run
  in the order of the decoded items, the first error of a handler ends the feed and is
  returned, and \<open>perr\<close> is the error of the decoder itself.
\<close>

fun Parse :: "Ext \<Rightarrow> Callbacks \<Rightarrow> decoded list \<Rightarrow> error option \<Rightarrow> st \<Rightarrow> error option \<times> st" where
  "Parse x cbs [] perr s = (perr, s)"
| "Parse x cbs (d # ds) perr s =
     (case dispatch_decoded x cbs d s of
        (Some e, s') \<Rightarrow> (Some e, s')
      | (None, s') \<Rightarrow> Parse x cbs ds perr s')"

fun handle_signal :: "Ext \<Rightarrow> Callbacks \<Rightarrow> Signal \<Rightarrow> st \<Rightarrow> error option \<times> st" where
  "handle_signal x cbs SIGINT (l, tr) = (case on_SIGINT l of (err, l') \<Rightarrow> (err, l', tr))"
| "handle_signal x cbs SIGTERM (l, tr) = (case on_SIGTERM l of (err, l') \<Rightarrow> (err, l', tr))"
| "handle_signal x cbs SIGTSTP (l, tr) = (case on_SIGTSTP l of (err, l') \<Rightarrow> (err, l', tr))"
| "handle_signal x cbs SIGHUP (l, tr) = (case on_SIGHUP l of (err, l') \<Rightarrow> (err, l', tr))"
| "handle_signal x cbs SIGWINCH (l, tr) = on_SIGWINCH x cbs (l, tr)"
| "handle_signal x cbs SIGPIPE (l, tr) = (case on_SIGPIPE l of (err, l') \<Rightarrow> (err, l', tr))"
| "handle_signal x cbs SIGNULL (l, tr) = (None, l, tr)"

fun handle_signals :: "Ext \<Rightarrow> Callbacks \<Rightarrow> Signal list \<Rightarrow> st \<Rightarrow> error option \<times> st" where
  "handle_signals x cbs [] s = (None, s)"
| "handle_signals x cbs (sig # sigs) s =
     (case handle_signal x cbs sig s of
        (Some e, s') \<Rightarrow> (Some e, s')
      | (None, s') \<Rightarrow> handle_signals x cbs sigs s')"

text \<open>
  Modelled from the spec: \<^verbatim>\<open>read_signals\<close> is in another file of the package.
  The spec says that the main loop reads the available records from the read end of the
  pipe and maps each to its handler (the table of section 4.2). The argument is what
  the read returned: an error, or the signals of the records.
\<close>

definition read_signals :: "Ext \<Rightarrow> Callbacks \<Rightarrow> error + Signal list \<Rightarrow> st \<Rightarrow> error option \<times> st" where
  "read_signals x cbs rd s =
     (case rd of
        Inl err \<Rightarrow> (Some err, s)
      | Inr sigs \<Rightarrow> handle_signals x cbs sigs s)"

subsection \<open>Timers\<close>

definition update_deadline :: "time \<Rightarrow> timer \<Rightarrow> timer" where
  "update_deadline now t = t\<lparr>deadline := now + interval t\<rparr>"

definition deadline_of :: "timer option \<Rightarrow> time" where
  "deadline_of t = (case t of Some u \<Rightarrow> deadline u | None \<Rightarrow> 0)"

text \<open>
  \<^verbatim>\<open>sort.SliceStable\<close> by \<^verbatim>\<open>deadline.Before\<close>. With two entries or
  more the comparison reads every entry, and a nil entry panics.
\<close>

definition sort_timers :: "Loop \<Rightarrow> error option \<times> Loop" where
  "sort_timers l =
     (if 2 \<le> length (timers l) \<and> None \<in> set (timers l)
      then (Some (Panic ''nil pointer dereference''), l)
      else (None, l\<lparr>timers := sort_key deadline_of (timers l)\<rparr>))"

definition CreateLoop :: "Loop" where
  "CreateLoop =
     \<lparr>controlling_term = None,
      terminal_options = \<lparr>alternate_screen = True, mouse_tracking = 0\<rparr>,
      screen_size = \<lparr>WidthCells = 0, HeightCells = 0, WidthPx = 0, HeightPx = 0,
        CellWidth = 0, CellHeight = 0, updated = False\<rparr>,
      keep_going = False, flush_write_buf = False, death_signal = SIGNULL, exit_code = 0,
      write_buf = [], timers = [], timer_id_counter = 0\<rparr>"

text \<open>\<open>now\<close> is what \<^verbatim>\<open>time.Now()\<close> returns; \<open>cb\<close> is the key of the callback.\<close>

definition AddTimer :: "time \<Rightarrow> int \<Rightarrow> bool \<Rightarrow> nat \<Rightarrow> Loop \<Rightarrow> error + (TimerId \<times> Loop)" where
  "AddTimer now iv rp cb l =
     (let l1 = l\<lparr>timer_id_counter := timer_id_counter l + 1\<rparr>;
          t = update_deadline now
                \<lparr>interval = iv, deadline = 0, repeats = rp, tid = timer_id_counter l1, callback = cb\<rparr>;
          l2 = l1\<lparr>timers := timers l1 @ [Some t]\<rparr>
      in case sort_timers l2 of
           (Some e, l3) \<Rightarrow> Inl e
         | (None, l3) \<Rightarrow> Inr (tid t, l3))"

text \<open>The index of the first timer with the id; reading the id of a nil entry panics.\<close>

fun find_timer :: "TimerId \<Rightarrow> nat \<Rightarrow> timer option list \<Rightarrow> error + nat option" where
  "find_timer ident i [] = Inr None"
| "find_timer ident i (None # ts) = Inl (Panic ''nil pointer dereference'')"
| "find_timer ident i (Some t # ts) =
     (if tid t = ident then Inr (Some i) else find_timer ident (Suc i) ts)"

definition RemoveTimer :: "TimerId \<Rightarrow> Loop \<Rightarrow> error + (bool \<times> Loop)" where
  "RemoveTimer ident l =
     (case find_timer ident 0 (timers l) of
        Inl e \<Rightarrow> Inl e
      | Inr None \<Rightarrow> Inr (False, l)
      | Inr (Some i) \<Rightarrow>
          Inr (True, l\<lparr>timers := take i (timers l) @ drop (Suc i) (timers l)\<rparr>))"

text \<open>
  The first loop of \<^verbatim>\<open>dispatch_timers\<close>, over the entries from index \<open>i\<close>
  on. \<open>upd\<close> is \<^verbatim>\<open>updated\<close>; \<open>rem\<close> holds the keys of the map
  \<^verbatim>\<open>remove\<close>, each once. The timer is a pointer: the new deadline is stored
  in the entry of the collection.

  The source ranges over the slice while the callback runs. A callback that adds or
  removes a timer shifts or sorts the backing array under the scan (or moves the
  collection to a new array, as the run-time system decides), which a list does not
  follow: the model answers \<open>Unmodelled\<close> there and says nothing about it.
\<close>

fun dispatch_scan ::
  "Callbacks \<Rightarrow> time \<Rightarrow> nat \<Rightarrow> timer option list \<Rightarrow> bool \<times> TimerId list \<Rightarrow> st
     \<Rightarrow> error option \<times> (bool \<times> TimerId list) \<times> st" where
  "dispatch_scan cbs now i [] ur s = (None, ur, s)"
| "dispatch_scan cbs now i (None # ts) ur s = (Some (Panic ''nil pointer dereference''), ur, s)"
| "dispatch_scan cbs now i (Some t # ts) (upd, rem) (l, tr) =
     (if deadline t < now
      then (case TimerCallback cbs (callback t) l (tid t) of
              (err, l1) \<Rightarrow>
                (let tr1 = tr @ [Called (TimerCallbackN (tid t))]
                 in if err \<noteq> None then (err, (upd, rem), (l1, tr1))
                    else if timers l1 \<noteq> timers l then (Some Unmodelled, (upd, rem), (l1, tr1))
                    else if repeats t
                    then dispatch_scan cbs now (Suc i) ts (True, rem)
                           (l1\<lparr>timers := (timers l1)[i := Some (update_deadline now t)]\<rparr>, tr1)
                    else dispatch_scan cbs now (Suc i) ts (upd, List.insert (tid t) rem) (l1, tr1)))
      else dispatch_scan cbs now (Suc i) ts (upd, rem) (l, tr))"

text \<open>
  Lines 529 to 535: \<^verbatim>\<open>make([]*timer, n)\<close> is a slice of \<open>n\<close> nil entries,
  and \<^verbatim>\<open>append\<close> adds after them.
\<close>

definition remove_fired :: "TimerId list \<Rightarrow> Loop \<Rightarrow> error option \<times> Loop" where
  "remove_fired rem l =
     (if length (timers l) < length rem then (Some (Panic ''makeslice: len out of range''), l)
      else if None \<in> set (timers l) then (Some (Panic ''nil pointer dereference''), l)
      else (None,
        l\<lparr>timers := replicate (length (timers l) - length rem) None
            @ filter (\<lambda>t. case t of Some u \<Rightarrow> tid u \<notin> set rem | None \<Rightarrow> False) (timers l)\<rparr>))"

definition dispatch_timers :: "Callbacks \<Rightarrow> time \<Rightarrow> st \<Rightarrow> error option \<times> st" where
  "dispatch_timers cbs now s =
     (case dispatch_scan cbs now 0 (timers (fst s)) (False, []) s of
        (Some e, ur, s1) \<Rightarrow> (Some e, s1)
      | (None, (upd, rem), (l1, tr1)) \<Rightarrow>
          (case (if length rem > 0 then remove_fired rem l1 else (None, l1)) of
             (Some e, l2) \<Rightarrow> (Some e, l2, tr1)
           | (None, l2) \<Rightarrow>
               if upd then (case sort_timers l2 of (err, l3) \<Rightarrow> (err, l3, tr1))
               else (None, l2, tr1)))"

subsection \<open>Run\<close>

text \<open>
  What one turn of the main loop gets from outside: the clock, what the wait returned
  (the count of ready descriptors and the error), the readiness of the terminal and of
  the signal pipe, \<^verbatim>\<open>unix.Write\<close> and \<^verbatim>\<open>unix.Read\<close> on the terminal
  (the count and errno, and the contents of \<^verbatim>\<open>read_buf\<close> after the read),
  what the parser decodes from the bytes read, and what the read of the signal pipe
  returns.
\<close>

record iter_in =
  it_now :: time
  it_wait :: "int \<times> error option"
  it_writable :: bool
  it_write :: "bytes \<Rightarrow> int \<times> errno option"
  it_readable :: bool
  it_read :: "int \<times> errno option"
  it_read_buf :: bytes
  it_decoded :: "decoded list"
  it_parse_err :: "error option"
  it_sig_readable :: bool
  it_signals :: "error + Signal list"

text \<open>
  Lines 376 to 392. With timers, the due ones are dispatched, then the first entry of
  the collection is read for the timeout (a panic when the collection is empty or the
  entry nil), and the error of the wait is not looked at. Without timers, an error of
  the wait is returned, wrapped.
\<close>

definition timers_and_wait :: "Callbacks \<Rightarrow> iter_in \<Rightarrow> st \<Rightarrow> error option \<times> st" where
  "timers_and_wait cbs i s =
     (if length (timers (fst s)) > 0
      then (case dispatch_timers cbs (it_now i) s of
              (Some e, s1) \<Rightarrow> (Some e, s1)
            | (None, s1) \<Rightarrow>
                (case timers (fst s1) of
                   [] \<Rightarrow> (Some (Panic ''index out of range''), s1)
                 | None # ts \<Rightarrow> (Some (Panic ''nil pointer dereference''), s1)
                 | Some t # ts \<Rightarrow> (None, s1)))
      else (case snd (it_wait i) of
              Some e \<Rightarrow> (Some (SelectFailed e), s)
            | None \<Rightarrow> (None, s)))"

text \<open>Lines 396 to 407.\<close>

definition write_stage ::
  "Callbacks \<Rightarrow> bool \<Rightarrow> (bytes \<Rightarrow> int \<times> errno option) \<Rightarrow> st \<Rightarrow> error option \<times> st" where
  "write_stage cbs writable wr s =
     (if length (write_buf (fst s)) > 0 \<and> writable
      then (case write_to_tty wr s of
              (Some e, s1) \<Rightarrow> (Some e, s1)
            | (None, (l1, tr1)) \<Rightarrow>
                (case OnWriteComplete cbs of
                   Some f \<Rightarrow>
                     if length (write_buf l1) = 0
                     then (case f l1 of (err, l2) \<Rightarrow> (err, l2, tr1 @ [Called OnWriteCompleteN]))
                     else (None, l1, tr1)
                 | None \<Rightarrow> (None, l1, tr1)))
      else (None, s))"

text \<open>Lines 415 to 420.\<close>

definition received_data :: "Callbacks \<Rightarrow> bytes \<Rightarrow> st \<Rightarrow> error option \<times> st" where
  "received_data cbs data s =
     (case OnReceivedData cbs of
        Some f \<Rightarrow>
          (case f (fst s) data of (err, l1) \<Rightarrow> (err, l1, snd s @ [Called OnReceivedDataN]))
      | None \<Rightarrow> (None, s))"

text \<open>Lines 408 to 426.\<close>

definition read_stage :: "Ext \<Rightarrow> Callbacks \<Rightarrow> iter_in \<Rightarrow> st \<Rightarrow> error option \<times> st" where
  "read_stage x cbs i s =
     (if it_readable i
      then (case read_ignoring_temporary_errors (it_read i) of
              (num_read, Some e) \<Rightarrow> (Some e, s)
            | (num_read, None) \<Rightarrow>
                if num_read > 0
                then (case received_data cbs (take (nat num_read) (it_read_buf i)) s of
                        (Some e, s1) \<Rightarrow> (Some e, s1)
                      | (None, s1) \<Rightarrow> Parse x cbs (it_decoded i) (it_parse_err i) s1)
                else (None, s))
      else (None, s))"

text \<open>Lines 427 to 433.\<close>

definition signal_stage :: "Ext \<Rightarrow> Callbacks \<Rightarrow> iter_in \<Rightarrow> st \<Rightarrow> error option \<times> st" where
  "signal_stage x cbs i s =
     (if it_sig_readable i then read_signals x cbs (it_signals i) s else (None, s))"

text \<open>
  The body of the loop, lines 371 to 433. \<open>Some e\<close> is a return with the error \<open>e\<close>
  (every return inside the loop returns an error); \<open>None\<close> is the end of the turn.
\<close>

definition iteration :: "Ext \<Rightarrow> Callbacks \<Rightarrow> iter_in \<Rightarrow> st \<Rightarrow> error option \<times> st" where
  "iteration x cbs i s =
     (case timers_and_wait cbs i s of
        (Some e, s1) \<Rightarrow> (Some e, s1)
      | (None, s1) \<Rightarrow>
          if fst (it_wait i) = 0 then (None, s1)
          else (case write_stage cbs (it_writable i) (it_write i) s1 of
                  (Some e, s2) \<Rightarrow> (Some e, s2)
                | (None, s2) \<Rightarrow>
                    (case read_stage x cbs i s2 of
                       (Some e, s3) \<Rightarrow> (Some e, s3)
                     | (None, s3) \<Rightarrow> signal_stage x cbs i s3)))"

text \<open>
  The loop \<^verbatim>\<open>for self.keep_going\<close>. The list holds the turns that the loop
  makes, one for each return of the wait; when it is used up and the flag still holds,
  the loop has not returned (it waits, or goes on turning), and the result is \<open>None\<close>.
\<close>

fun main_loop :: "Ext \<Rightarrow> Callbacks \<Rightarrow> iter_in list \<Rightarrow> st \<Rightarrow> (error option \<times> st) option" where
  "main_loop x cbs [] s = (if keep_going (fst s) then None else Some (None, s))"
| "main_loop x cbs (i # is) s =
     (if keep_going (fst s)
      then (case iteration x cbs i s of
              (Some e, s1) \<Rightarrow> Some (Some e, s1)
            | (None, s1) \<Rightarrow> main_loop x cbs is s1)
      else Some (None, s))"

text \<open>
  What \<^verbatim>\<open>Run\<close> gets from outside: the results of \<^verbatim>\<open>os.Pipe\<close>, of
  \<^verbatim>\<open>tty.OpenControllingTerm\<close> and of \<^verbatim>\<open>ApplyOperations(tty.TCSANOW, tty.SetRaw)\<close>,
  the turns of the main loop, and the turns of the two calls of \<^verbatim>\<open>flush\<close> in
  the shutdown.
\<close>

record Env =
  pipe_result :: "error option"
  open_result :: "error + Term"
  raw_result :: "error option"
  turns :: "iter_in list"
  flush_first :: "flush_in list"
  flush_last :: "flush_in list"

text \<open>The deferred function of lines 304 to 307, and \<^verbatim>\<open>reset_signals\<close> of line 311.\<close>

definition close_pipe :: "st \<Rightarrow> st" where
  "close_pipe s = (fst s, snd s @ [PipeClosed])"

definition reset_signals :: "st \<Rightarrow> st" where
  "reset_signals s = (fst s, snd s @ [SignalsReset])"

text \<open>The deferred function of lines 328 to 331.\<close>

definition restore_term :: "st \<Rightarrow> st" where
  "restore_term s =
     ((fst s)\<lparr>controlling_term := None\<rparr>, snd s @ [TermRestore (controlling_term (fst s))])"

text \<open>The deferred function of lines 352 to 362. The errors of \<^verbatim>\<open>flush\<close> are dropped.\<close>

definition shutdown :: "Ext \<Rightarrow> Env \<Rightarrow> string \<Rightarrow> st \<Rightarrow> st" where
  "shutdown x env finalizer s =
     (let s1 = (if flush_write_buf (fst s) then snd (flush (flush_first env) s) else s);
          l2 = (fst s1)\<lparr>write_buf := []\<rparr>;
          l3 = (if finalizer \<noteq> [] then queue_write_to_tty finalizer l2 else l2);
          l4 = queue_write_to_tty (ResetStateEscapeCodes x (terminal_options l3)) l3
      in snd (flush (flush_last env) (l4, snd s1)))"

text \<open>Lines 364 to 436: the resets, the loop, and the return of nil after it.\<close>

definition run_loop :: "Ext \<Rightarrow> Env \<Rightarrow> Callbacks \<Rightarrow> st \<Rightarrow> (error option \<times> st) option" where
  "run_loop x env cbs s =
     main_loop x cbs (turns env) ((fst s)\<lparr>death_signal := SIGNULL, exit_code := 0\<rparr>, snd s)"

text \<open>Lines 341 to 350: the result of the initialization callback, or the empty finalizer.\<close>

definition run_init :: "Ext \<Rightarrow> Callbacks \<Rightarrow> st \<Rightarrow> (string \<times> error option) \<times> st" where
  "run_init x cbs s =
     (let l1 = (fst s)\<lparr>keep_going := True, flush_write_buf := True\<rparr>;
          l2 = queue_write_to_tty (SetStateEscapeCodes x (terminal_options l1)) l1
      in case OnInitialize cbs of
           Some f \<Rightarrow> (case f l2 of (r, l3) \<Rightarrow> (r, l3, snd s @ [Called OnInitializeN]))
         | None \<Rightarrow> (([], None), l2, snd s))"

text \<open>
  \<^verbatim>\<open>Run\<close>. A deferred function runs when the function that deferred it returns
  or panics, the last deferred first: it is applied to the state the rest of the body
  leaves. When the main loop does not return, nothing deferred runs and the result is
  \<open>None\<close>.
\<close>

definition Run :: "Ext \<Rightarrow> Env \<Rightarrow> Callbacks \<Rightarrow> st \<Rightarrow> (error option \<times> st) option" where
  "Run x env cbs s =
     (case pipe_result env of
        Some err \<Rightarrow> Some (Some err, s)
      | None \<Rightarrow>
          map_option (\<lambda>(r, s'). (r, close_pipe (reset_signals s')))
            (case open_result env of
               Inl err \<Rightarrow> Some (Some err, s)
             | Inr term \<Rightarrow>
                 map_option (\<lambda>(r, s'). (r, restore_term s'))
                   (let s1 = ((fst s)\<lparr>controlling_term := Some term\<rparr>, snd s)
                    in case raw_result env of
                         Some err \<Rightarrow> Some (None, s1)
                       | None \<Rightarrow>
                           (case run_init x cbs s1 of
                              ((finalizer, Some err), s2) \<Rightarrow> Some (Some err, s2)
                            | ((finalizer, None), s2) \<Rightarrow>
                                map_option (\<lambda>(r, s'). (r, shutdown x env finalizer s'))
                                  (run_loop x env cbs s2)))))"

section \<open>Properties\<close>

subsection \<open>Definitions used in the statements\<close>

text \<open>
  The timer collection is sorted ascending by deadline: no entry is nil and the
  deadlines do not decrease.
\<close>

definition timers_sorted :: "Loop \<Rightarrow> bool" where
  "timers_sorted l = (None \<notin> set (timers l) \<and> sorted (map deadline_of (timers l)))"

text \<open>
  A sequence of calls of \<^verbatim>\<open>AddTimer\<close> and \<^verbatim>\<open>RemoveTimer\<close>.
  \<open>run_ops\<close> makes the calls in order and returns the ids that the calls of
  \<^verbatim>\<open>AddTimer\<close> returned and the loop after each call.
\<close>

datatype timer_op = OpAdd time int bool nat | OpRemove TimerId

fun is_add :: "timer_op \<Rightarrow> bool" where
  "is_add (OpAdd now iv rp cb) = True"
| "is_add (OpRemove i) = False"

fun run_ops :: "timer_op list \<Rightarrow> Loop \<Rightarrow> error + (TimerId list \<times> Loop list)" where
  "run_ops [] l = Inr ([], [])"
| "run_ops (OpAdd now iv rp cb # ops) l =
     (case AddTimer now iv rp cb l of
        Inl e \<Rightarrow> Inl e
      | Inr (i, l') \<Rightarrow>
          (case run_ops ops l' of
             Inl e \<Rightarrow> Inl e
           | Inr (ids, ls) \<Rightarrow> Inr (i # ids, l' # ls)))"
| "run_ops (OpRemove i # ops) l =
     (case RemoveTimer i l of
        Inl e \<Rightarrow> Inl e
      | Inr (b, l') \<Rightarrow>
          (case run_ops ops l' of
             Inl e \<Rightarrow> Inl e
           | Inr (ids, ls) \<Rightarrow> Inr (ids, l' # ls)))"

text \<open>A write primitive that accepts \<open>k\<close> bytes for each call, or what is left when that is less.\<close>

definition accept :: "nat \<Rightarrow> bytes \<Rightarrow> int \<times> errno option" where
  "accept k buf = (int (min k (length buf)), None)"

text \<open>The list cut into pieces of \<open>k\<close> elements, the last piece holding the rest.\<close>

function chunks :: "nat \<Rightarrow> 'a list \<Rightarrow> 'a list list" where
  "chunks k xs = (if k = 0 \<or> xs = [] then [] else take k xs # chunks k (drop k xs))"
  by pat_completeness auto
termination
  by (relation "measure (\<lambda>(k, xs). length xs)") auto

text \<open>
  Repeated draining: \<open>n\<close> turns of the main loop in which the terminal is ready to
  write, each running lines 396 to 407.
\<close>

fun drain :: "Callbacks \<Rightarrow> (bytes \<Rightarrow> int \<times> errno option) \<Rightarrow> nat \<Rightarrow> st \<Rightarrow> error option \<times> st" where
  "drain cbs wr 0 s = (None, s)"
| "drain cbs wr (Suc n) s =
     (case write_stage cbs True wr s of
        (Some e, s') \<Rightarrow> (Some e, s')
      | (None, s') \<Rightarrow> drain cbs wr n s')"

subsection \<open>Concrete values\<close>

definition sample_ext :: Ext where
  "sample_ext =
     \<lparr>GetSize = (\<lambda>t. case t of
          None \<Rightarrow> Inl (Panic ''nil pointer dereference'')
        | Some u \<Rightarrow> Inr \<lparr>Row = 24, Col = 80, Xpixel = 800, Ypixel = 480\<rparr>),
      KeyEventFromCSI = (\<lambda>csi. None),
      MatchesPressOrRepeat = (\<lambda>ev spec. Type ev \<noteq> RELEASE \<and> Key ev = spec),
      SetStateEscapeCodes = (\<lambda>opts. ''<set>''),
      ResetStateEscapeCodes = (\<lambda>opts. ''<reset>'')\<rparr>"

definition no_callbacks :: Callbacks where
  "no_callbacks =
     \<lparr>OnInitialize = None, OnKeyEvent = None, OnText = None, OnResize = None,
      OnWriteComplete = None, OnRCResponse = None, OnReceivedData = None,
      TimerCallback = (\<lambda>k l i. (None, l))\<rparr>"

definition sample_loop :: Loop where
  "sample_loop = CreateLoop\<lparr>controlling_term := Some (Term 3)\<rparr>"

definition timer_a :: timer where
  "timer_a = \<lparr>interval = 5, deadline = 5, repeats = False, tid = 1, callback = 0\<rparr>"

definition timer_b :: timer where
  "timer_b = \<lparr>interval = 100, deadline = 100, repeats = False, tid = 2, callback = 0\<rparr>"

definition ctrl_c_event :: KeyEvent where
  "ctrl_c_event = \<lparr>Type = PRESS, Mods = 4, Key = ''ctrl+c'', Text = ''c'', Handled = False\<rparr>"

definition ctrl_z_event :: KeyEvent where
  "ctrl_z_event = \<lparr>Type = REPEAT, Mods = 4, Key = ''ctrl+z'', Text = ''z'', Handled = False\<rparr>"

definition key_marks_handled :: "Loop \<Rightarrow> KeyEvent \<Rightarrow> error option \<times> Loop \<times> KeyEvent" where
  "key_marks_handled l ev = (None, l, ev\<lparr>Handled := True\<rparr>)"

definition key_leaves_unhandled :: "Loop \<Rightarrow> KeyEvent \<Rightarrow> error option \<times> Loop \<times> KeyEvent" where
  "key_leaves_unhandled l ev = (None, l, ev)"

definition text_quits :: "Loop \<Rightarrow> string \<Rightarrow> bool \<Rightarrow> bool \<Rightarrow> error option \<times> Loop" where
  "text_quits l txt from_key in_paste = (None, Quit 9 l)"

definition write_complete_noop :: "Loop \<Rightarrow> error option \<times> Loop" where
  "write_complete_noop l = (None, l)"

definition sample_ops :: "timer_op list" where
  "sample_ops = [OpAdd 0 50 False 0, OpAdd 1 10 True 1, OpRemove 1, OpAdd 2 20 False 0]"

subsection \<open>Definitions used in the statements about Run\<close>

















subsection \<open>Concrete runs\<close>

text \<open>
  An environment in which the setup succeeds and each flush of the shutdown gets one
  wait that finds the terminal ready and a write that takes the whole buffer; a turn of
  the main loop that reads the character q from the terminal; and a turn that reads
  SIGINT from the signal pipe.
\<close>

definition flush_ready :: flush_in where
  "flush_ready = \<lparr>f_wait = (1, None), f_writable = True, f_write = accept 1000\<rparr>"

definition sample_env :: Env where
  "sample_env =
     \<lparr>pipe_result = None, open_result = Inr (Term 3), raw_result = None, turns = [],
      flush_first = [flush_ready], flush_last = [flush_ready]\<rparr>"

definition turn_text :: iter_in where
  "turn_text =
     \<lparr>it_now = 0, it_wait = (1, None), it_writable = False, it_write = accept 1000,
      it_readable = True, it_read = (1, None), it_read_buf = ''q'',
      it_decoded = [DRune ''q'' False], it_parse_err = None,
      it_sig_readable = False, it_signals = Inr []\<rparr>"

definition turn_sigint :: iter_in where
  "turn_sigint =
     \<lparr>it_now = 0, it_wait = (1, None), it_writable = False, it_write = accept 1000,
      it_readable = False, it_read = (0, None), it_read_buf = [],
      it_decoded = [], it_parse_err = None,
      it_sig_readable = True, it_signals = Inr [SIGINT]\<rparr>"

definition init_ok :: "Loop \<Rightarrow> (string \<times> error option) \<times> Loop" where
  "init_ok l = ((''<fin>'', None), l)"

definition init_fails :: "Loop \<Rightarrow> (string \<times> error option) \<times> Loop" where
  "init_fails l = (([], Some (ExtError ''init failed'')), l)"

definition init_quits :: "Loop \<Rightarrow> (string \<times> error option) \<times> Loop" where
  "init_quits l = ((''<fin>'', None), Quit 7 l)"

definition text_quits7 :: "Loop \<Rightarrow> string \<Rightarrow> bool \<Rightarrow> bool \<Rightarrow> error option \<times> Loop" where
  "text_quits7 l txt from_key in_paste = (None, Quit 7 l)"

text \<open>
  A repeating timer that is due at the time 10, a timer callback that calls
  \<^verbatim>\<open>Quit(7)\<close>, and a turn of the main loop at the time 10 in which the wait
  ends with nothing ready.
\<close>

definition timer_repeating :: timer where
  "timer_repeating = \<lparr>interval = 100, deadline = 5, repeats = True, tid = 1, callback = 0\<rparr>"

definition timer_quits7 :: "nat \<Rightarrow> Loop \<Rightarrow> TimerId \<Rightarrow> error option \<times> Loop" where
  "timer_quits7 k l i = (None, Quit 7 l)"

definition turn_timeout :: iter_in where
  "turn_timeout =
     \<lparr>it_now = 10, it_wait = (0, None), it_writable = False, it_write = accept 1000,
      it_readable = False, it_read = (0, None), it_read_buf = [],
      it_decoded = [], it_parse_err = None,
      it_sig_readable = False, it_signals = Inr []\<rparr>"

definition resize_noop :: "Loop \<Rightarrow> ScreenSize \<Rightarrow> ScreenSize \<Rightarrow> error option \<times> Loop" where
  "resize_noop l old_size new_size = (None, l)"

text \<open>The loop that \<^verbatim>\<open>Run\<close> leaves in these runs, but for the exit code and the death signal.\<close>

definition loop_after_run :: Loop where
  "loop_after_run = CreateLoop\<lparr>flush_write_buf := True\<rparr>"

subsection \<open>Screen size\<close>

text \<open>
  Claim C1 says that with a controlling terminal present, a query of a stale screen size
  recomputes it from the terminal and returns it without error. The code does the
  opposite: the guard of \<^verbatim>\<open>update_screen_size\<close> returns the error
  ``No controlling terminal'' exactly when the terminal is present, so the function
  leaves the loop as it was, \<^verbatim>\<open>ScreenSize()\<close> returns the stale size with
  that error, and the handler of SIGWINCH returns the error without invoking the resize
  callback.
\<close>

theorem update_screen_size_fails_with_terminal:
  "update_screen_size x (l\<lparr>controlling_term := Some t\<rparr>)
     = (Some NoControllingTerm, l\<lparr>controlling_term := Some t\<rparr>)
   \<and> Loop_ScreenSize x (l\<lparr>controlling_term := Some t, screen_size := sz\<lparr>updated := False\<rparr>\<rparr>)
     = ((sz\<lparr>updated := False\<rparr>, Some NoControllingTerm),
        l\<lparr>controlling_term := Some t, screen_size := sz\<lparr>updated := False\<rparr>\<rparr>)
   \<and> on_SIGWINCH x (cbs\<lparr>OnResize := Some f\<rparr>) (l\<lparr>controlling_term := Some t\<rparr>, tr)
     = (Some NoControllingTerm,
        l\<lparr>controlling_term := Some t, screen_size := (screen_size l)\<lparr>updated := False\<rparr>\<rparr>, tr)"
  by (simp add: update_screen_size_def Loop_ScreenSize_def on_SIGWINCH_def)

subsection \<open>Timers dispatched\<close>

text \<open>
  Claim C4 says that after a dispatch the collection holds exactly the surviving timers,
  with no nil entry. In the code the new slice is made with a length (not a capacity) of
  the number of survivors and the survivors are appended after it. With a due one-shot
  timer and a timer that is not due, the callback of the first is invoked once and the
  collection becomes a nil entry followed by the second timer.
\<close>

theorem dispatch_timers_leaves_nil_entry:
  "dispatch_timers no_callbacks 10 (CreateLoop\<lparr>timers := [Some timer_a, Some timer_b]\<rparr>, [])
     = (None, CreateLoop\<lparr>timers := [None, Some timer_b]\<rparr>, [Called (TimerCallbackN 1)])"
  by (simp add: dispatch_timers_def remove_fired_def no_callbacks_def timer_a_def timer_b_def
      CreateLoop_def)

subsection \<open>Failures of the setup\<close>

text \<open>
  Claim C5 says that \<^verbatim>\<open>Run\<close> returns the error when the switch to raw mode
  fails. The code returns nil there: with the pipe created and the terminal opened, a
  failure \<open>e\<close> of the switch makes \<^verbatim>\<open>Run\<close> restore the terminal, release
  the signals and the pipe, invoke no callback, and return no error.
\<close>

theorem Run_raw_mode_failure_returns_nil:
  "Run x (env\<lparr>pipe_result := None, open_result := Inr t, raw_result := Some e\<rparr>) cbs (l, tr)
     = Some (None, l\<lparr>controlling_term := None\<rparr>,
             tr @ [TermRestore (Some t), SignalsReset, PipeClosed])"
  by (simp add: Run_def restore_term_def reset_signals_def close_pipe_def)

text \<open>The other two failures of the setup are returned, and no callback is invoked.\<close>

lemma Run_pipe_failure:
  "Run x (env\<lparr>pipe_result := Some e\<rparr>) cbs s = Some (Some e, s)"
  by (simp add: Run_def)

lemma Run_open_failure:
  "Run x (env\<lparr>pipe_result := None, open_result := Inl e\<rparr>) cbs (l, tr)
     = Some (Some e, l, tr @ [SignalsReset, PipeClosed])"
  by (simp add: Run_def reset_signals_def close_pipe_def)

subsection \<open>A write of zero bytes\<close>

text \<open>
  Claim C8. With bytes in the buffer and a terminal, a write that reports zero bytes and
  no error makes \<^verbatim>\<open>write_to_tty\<close> return the end-of-stream error
  \<open>EOF\<close>; a write that fails with EINTR, EAGAIN or EWOULDBLOCK makes it return no
  error and leave the buffer as it was. In both cases one write call was made and it
  accepted nothing the loop takes out of the buffer.
\<close>

theorem zero_write_is_EOF_temporary_error_is_no_progress:
  assumes "write_buf l \<noteq> []" and "controlling_term l \<noteq> None"
  shows "(wr (write_buf l) = (0, None) \<longrightarrow>
            write_ignoring_temporary_errors (wr (write_buf l)) = (0, Some EOF)
          \<and> write_to_tty wr (l, tr) = (Some EOF, l, tr @ [TtyWrite []]))
       \<and> (\<forall>n e. wr (write_buf l) = (n, Some e) \<and> (e = EINTR \<or> e = EAGAIN \<or> e = EWOULDBLOCK) \<longrightarrow>
            write_ignoring_temporary_errors (wr (write_buf l)) = (0, None)
          \<and> write_to_tty wr (l, tr) = (None, l, tr @ [TtyWrite (take (nat n) (write_buf l))]))"
  using assms
  by (auto simp add: write_to_tty_def write_ignoring_temporary_errors_def)

theorem zero_write_is_EOF_witness:
  "write_to_tty (\<lambda>buf. (0, None)) (sample_loop\<lparr>write_buf := ''ab''\<rparr>, [])
     = (Some EOF, sample_loop\<lparr>write_buf := ''ab''\<rparr>, [TtyWrite []])
   \<and> write_to_tty (\<lambda>buf. (- 1, Some EAGAIN)) (sample_loop\<lparr>write_buf := ''ab''\<rparr>, [])
     = (None, sample_loop\<lparr>write_buf := ''ab''\<rparr>, [TtyWrite []])"
  using zero_write_is_EOF_temporary_error_is_no_progress
      [where l = "sample_loop\<lparr>write_buf := ''ab''\<rparr>" and wr = "\<lambda>buf. (0, None)" and tr = "[]"]
    zero_write_is_EOF_temporary_error_is_no_progress
      [where l = "sample_loop\<lparr>write_buf := ''ab''\<rparr>" and wr = "\<lambda>buf. (- 1, Some EAGAIN)"
         and tr = "[]"]
  by (simp add: sample_loop_def CreateLoop_def)

subsection \<open>The default key bindings\<close>

text \<open>
  Claim C9. Let the event, as the key callback leaves it, match ctrl+c as press or
  repeat. If the callback marked it handled, \<^verbatim>\<open>handle_key_event\<close> returns
  the loop as the callback left it: the flag \<^verbatim>\<open>keep_going\<close> and the death
  signal are not touched. If the callback returned without error and left the event
  unhandled, or if there is no key callback, the default binding runs:
  \<^verbatim>\<open>keep_going\<close> becomes false and the death signal becomes SIGINT.
\<close>

theorem ctrl_c_handled_or_default_binding:
  assumes "MatchesPressOrRepeat x ev' ''ctrl+c''"
  shows "(OnKeyEvent cbs = Some f \<and> f l ev = (err, l', ev') \<and> Handled ev' \<longrightarrow>
            handle_key_event x cbs ev (l, tr) = (err, (l', tr @ [Called OnKeyEventN]), ev'))
       \<and> (OnKeyEvent cbs = Some f \<and> f l ev = (None, l', ev') \<and> \<not> Handled ev' \<longrightarrow>
            handle_key_event x cbs ev (l, tr) =
              (None, (l'\<lparr>death_signal := SIGINT, keep_going := False\<rparr>, tr @ [Called OnKeyEventN]),
               ev'\<lparr>Handled := True\<rparr>))
       \<and> (OnKeyEvent cbs = None \<longrightarrow>
            handle_key_event x cbs ev' (l, tr) =
              (None, (l\<lparr>death_signal := SIGINT, keep_going := False\<rparr>, tr),
               ev'\<lparr>Handled := True\<rparr>))"
  using assms
  by (auto simp add: handle_key_event_def key_defaults_def on_SIGINT_def Let_def)

theorem ctrl_c_handled_or_default_binding_witness:
  "handle_key_event sample_ext (no_callbacks\<lparr>OnKeyEvent := Some key_marks_handled\<rparr>) ctrl_c_event
       (sample_loop\<lparr>keep_going := True\<rparr>, [])
     = (None, (sample_loop\<lparr>keep_going := True\<rparr>, [Called OnKeyEventN]),
        ctrl_c_event\<lparr>Handled := True\<rparr>)
   \<and> handle_key_event sample_ext (no_callbacks\<lparr>OnKeyEvent := Some key_leaves_unhandled\<rparr>)
       ctrl_c_event (sample_loop\<lparr>keep_going := True\<rparr>, [])
     = (None, (sample_loop\<lparr>keep_going := False, death_signal := SIGINT\<rparr>, [Called OnKeyEventN]),
        ctrl_c_event\<lparr>Handled := True\<rparr>)
   \<and> handle_key_event sample_ext no_callbacks ctrl_c_event (sample_loop\<lparr>keep_going := True\<rparr>, [])
     = (None, (sample_loop\<lparr>keep_going := False, death_signal := SIGINT\<rparr>, []),
        ctrl_c_event\<lparr>Handled := True\<rparr>)"
  using ctrl_c_handled_or_default_binding
      [where x = sample_ext and ev' = "ctrl_c_event\<lparr>Handled := True\<rparr>" and ev = ctrl_c_event
         and cbs = "no_callbacks\<lparr>OnKeyEvent := Some key_marks_handled\<rparr>"
         and f = key_marks_handled and l = "sample_loop\<lparr>keep_going := True\<rparr>"
         and l' = "sample_loop\<lparr>keep_going := True\<rparr>" and err = None and tr = "[]"]
    ctrl_c_handled_or_default_binding
      [where x = sample_ext and ev' = ctrl_c_event and ev = ctrl_c_event
         and cbs = "no_callbacks\<lparr>OnKeyEvent := Some key_leaves_unhandled\<rparr>"
         and f = key_leaves_unhandled and l = "sample_loop\<lparr>keep_going := True\<rparr>"
         and l' = "sample_loop\<lparr>keep_going := True\<rparr>" and err = None and tr = "[]"]
    ctrl_c_handled_or_default_binding
      [where x = sample_ext and ev' = ctrl_c_event and cbs = no_callbacks
         and l = "sample_loop\<lparr>keep_going := True\<rparr>" and tr = "[]"]
  by (simp add: sample_ext_def no_callbacks_def ctrl_c_event_def key_marks_handled_def
      key_leaves_unhandled_def sample_loop_def CreateLoop_def)

text \<open>
  Claim C10. Let the key callback return without error (or be absent) and leave the
  event unhandled, and let the event then match ctrl+c or ctrl+z as press or repeat.
  Then \<^verbatim>\<open>handle_key_event\<close> sets the handled flag of the event, does what the
  signal handler does (for ctrl+c the death signal SIGINT and the end of the loop, for
  ctrl+z nothing) and returns: the log shows no call of the text callback, and the
  result does not depend on it, whatever the text of the event is.
\<close>

theorem default_binding_returns_before_text:
  assumes "MatchesPressOrRepeat x ev' ''ctrl+c'' \<or> MatchesPressOrRepeat x ev' ''ctrl+z''"
    and "\<not> Handled ev'"
    and "(OnKeyEvent cbs = Some f \<and> f l ev = (None, l', ev'))
         \<or> (OnKeyEvent cbs = None \<and> l' = l \<and> ev' = ev)"
  shows "handle_key_event x cbs ev (l, tr) =
           (None,
            (if MatchesPressOrRepeat x ev' ''ctrl+c''
             then l'\<lparr>death_signal := SIGINT, keep_going := False\<rparr> else l',
             tr @ (if OnKeyEvent cbs = None then [] else [Called OnKeyEventN])),
            ev'\<lparr>Handled := True\<rparr>)"
  using assms
  by (auto simp add: handle_key_event_def key_defaults_def on_SIGINT_def on_SIGTSTP_def Let_def)

theorem default_binding_returns_before_text_witness:
  "handle_key_event sample_ext (no_callbacks\<lparr>OnText := Some text_quits\<rparr>) ctrl_z_event
       (sample_loop\<lparr>keep_going := True\<rparr>, [])
     = (None, (sample_loop\<lparr>keep_going := True\<rparr>, []), ctrl_z_event\<lparr>Handled := True\<rparr>)
   \<and> handle_key_event sample_ext
       (no_callbacks\<lparr>OnKeyEvent := Some key_leaves_unhandled, OnText := Some text_quits\<rparr>)
       ctrl_c_event (sample_loop\<lparr>keep_going := True\<rparr>, [])
     = (None, (sample_loop\<lparr>keep_going := False, death_signal := SIGINT\<rparr>, [Called OnKeyEventN]),
        ctrl_c_event\<lparr>Handled := True\<rparr>)"
  using default_binding_returns_before_text
      [where x = sample_ext and ev' = ctrl_z_event and ev = ctrl_z_event
         and cbs = "no_callbacks\<lparr>OnText := Some text_quits\<rparr>"
         and l = "sample_loop\<lparr>keep_going := True\<rparr>" and l' = "sample_loop\<lparr>keep_going := True\<rparr>"
         and tr = "[]"]
    default_binding_returns_before_text
      [where x = sample_ext and ev' = ctrl_c_event and ev = ctrl_c_event
         and cbs = "no_callbacks\<lparr>OnKeyEvent := Some key_leaves_unhandled, OnText := Some text_quits\<rparr>"
         and f = key_leaves_unhandled
         and l = "sample_loop\<lparr>keep_going := True\<rparr>" and l' = "sample_loop\<lparr>keep_going := True\<rparr>"
         and tr = "[]"]
  by (simp add: sample_ext_def no_callbacks_def ctrl_c_event_def ctrl_z_event_def
      key_leaves_unhandled_def sample_loop_def CreateLoop_def)

subsection \<open>Timers added and removed\<close>

lemma sort_timers_sorted:
  "None \<notin> set (timers l) \<Longrightarrow> \<exists>l'. sort_timers l = (None, l') \<and> timers_sorted l'
     \<and> timer_id_counter l' = timer_id_counter l"
  by (simp add: sort_timers_def timers_sorted_def)

lemma AddTimer_sorted:
  assumes "None \<notin> set (timers l)"
  shows "\<exists>l'. AddTimer now iv rp cb l = Inr (timer_id_counter l + 1, l') \<and> timers_sorted l'
     \<and> timer_id_counter l' = timer_id_counter l + 1"
proof -
  let ?l2 = "l\<lparr>timer_id_counter := timer_id_counter l + 1,
    timers := timers l @ [Some (update_deadline now \<lparr>interval = iv, deadline = 0, repeats = rp,
       tid = timer_id_counter l + 1, callback = cb\<rparr>)]\<rparr>"
  have "None \<notin> set (timers ?l2)" using assms by simp
  from sort_timers_sorted[OF this] obtain l' where
    "sort_timers ?l2 = (None, l')" "timers_sorted l'" "timer_id_counter l' = timer_id_counter ?l2"
    by blast
  then show ?thesis
    by (simp add: AddTimer_def Let_def update_deadline_def)
qed

lemma find_timer_Inr:
  "None \<notin> set ts \<Longrightarrow> \<exists>r. find_timer ident i ts = Inr r \<and> (\<forall>j. r = Some j \<longrightarrow> i \<le> j \<and> j < i + length ts)"
proof (induction ts arbitrary: i)
  case Nil
  then show ?case by simp
next
  case (Cons a ts)
  then obtain t where a: "a = Some t" by (cases a) auto
  from Cons have "None \<notin> set ts" by simp
  from Cons.IH[OF this, of "Suc i"] show ?case
    by (auto simp add: a)
qed

lemma sorted_remove_nth:
  "sorted (map f xs) \<Longrightarrow> sorted (map f (take i xs @ drop (Suc i) xs))"
proof -
  assume s: "sorted (map f xs)"
  have "sorted (take i (map f xs) @ drop (Suc i) (map f xs))"
  proof (rule sorted_wrt_append[THEN iffD2], intro conjI ballI)
    show "sorted (take i (map f xs))" using s by (rule sorted_wrt_take)
    show "sorted (drop (Suc i) (map f xs))" using s by (rule sorted_wrt_drop)
  next
    fix a b assume a: "a \<in> set (take i (map f xs))" and b: "b \<in> set (drop (Suc i) (map f xs))"
    have "\<forall>u\<in>set (take i (map f xs)). \<forall>v\<in>set (drop i (map f xs)). u \<le> v"
      using s sorted_append[of "take i (map f xs)" "drop i (map f xs)"]
      unfolding append_take_drop_id by blast
    moreover have "b \<in> set (drop i (map f xs))"
      using b by (metis Suc_n_not_le_n in_set_dropD drop_drop add.commute plus_1_eq_Suc)
    ultimately show "a \<le> b" using a by blast
  qed
  then show ?thesis by (simp add: take_map drop_map)
qed

lemma RemoveTimer_sorted:
  assumes "timers_sorted l"
  shows "\<exists>b l'. RemoveTimer ident l = Inr (b, l') \<and> timers_sorted l'
     \<and> timer_id_counter l' = timer_id_counter l"
proof -
  from assms have nn: "None \<notin> set (timers l)" and so: "sorted (map deadline_of (timers l))"
    by (simp_all add: timers_sorted_def)
  from find_timer_Inr[OF nn, of ident 0] obtain r where r: "find_timer ident 0 (timers l) = Inr r"
    by blast
  show ?thesis
  proof (cases r)
    case None
    with r assms show ?thesis by (auto simp add: RemoveTimer_def)
  next
    case (Some i)
    have "None \<notin> set (take i (timers l) @ drop (Suc i) (timers l))"
      using nn by (auto dest: in_set_takeD in_set_dropD)
    moreover have "sorted (map deadline_of (take i (timers l) @ drop (Suc i) (timers l)))"
      using so by (rule sorted_remove_nth)
    ultimately show ?thesis using r Some
      by (auto simp add: RemoveTimer_def timers_sorted_def)
  qed
qed


lemma run_ops_sorted:
  "timers_sorted l \<Longrightarrow>
   \<exists>ids ls. run_ops ops l = Inr (ids, ls) \<and> (\<forall>l' \<in> set ls. timers_sorted l')
     \<and> length ls = length ops
     \<and> ids = map (\<lambda>k. timer_id_counter l + of_nat k) [1 ..< Suc (length (filter is_add ops))]"
proof (induction ops arbitrary: l)
  case Nil
  then show ?case by simp
next
  case (Cons op ops)
  show ?case
  proof (cases op)
    case (OpAdd now iv rp cb)
    from Cons.prems have "None \<notin> set (timers l)" by (simp add: timers_sorted_def)
    from AddTimer_sorted[OF this, of now iv rp cb] obtain l1 where
      a: "AddTimer now iv rp cb l = Inr (timer_id_counter l + 1, l1)" and s1: "timers_sorted l1"
      and c1: "timer_id_counter l1 = timer_id_counter l + 1" by blast
    from Cons.IH[OF s1] obtain ids ls where
      r: "run_ops ops l1 = Inr (ids, ls)" and sl: "\<forall>l' \<in> set ls. timers_sorted l'"
      and len: "length ls = length ops"
      and ids: "ids = map (\<lambda>k. timer_id_counter l1 + of_nat k) [1 ..< Suc (length (filter is_add ops))]"
      by blast
    have "map (\<lambda>k. timer_id_counter l + of_nat k) [1 ..< Suc (Suc (length (filter is_add ops)))]
        = (timer_id_counter l + 1) # map (\<lambda>k. timer_id_counter l1 + of_nat k) [1 ..< Suc (length (filter is_add ops))]"
    proof -
      have "[1 ..< Suc (Suc (length (filter is_add ops)))] = 1 # map Suc [1 ..< Suc (length (filter is_add ops))]"
        by (metis One_nat_def map_Suc_upt upt_conv_Cons zero_less_Suc Suc_less_eq)
      then show ?thesis by (simp add: c1 o_def add.assoc)
    qed
    with a r sl len ids s1 show ?thesis by (simp add: OpAdd)
  next
    case (OpRemove i)
    from RemoveTimer_sorted[OF Cons.prems, of i] obtain b l1 where
      a: "RemoveTimer i l = Inr (b, l1)" and s1: "timers_sorted l1"
      and c1: "timer_id_counter l1 = timer_id_counter l" by blast
    from Cons.IH[OF s1] obtain ids ls where
      r: "run_ops ops l1 = Inr (ids, ls)" and sl: "\<forall>l' \<in> set ls. timers_sorted l'"
      and len: "length ls = length ops"
      and ids: "ids = map (\<lambda>k. timer_id_counter l1 + of_nat k) [1 ..< Suc (length (filter is_add ops))]"
      by blast
    with a s1 c1 show ?thesis by (simp add: OpRemove)
  qed
qed

lemma ids_increasing:
  "unat (c::64 word) + n < 2 ^ 64 \<Longrightarrow>
   sorted_wrt (<) (map (\<lambda>k. c + of_nat k) [1 ..< Suc n]) \<and> (\<forall>i \<in> set (map (\<lambda>k. c + of_nat k) [1 ..< Suc n]). c < i)"
proof -
  assume b: "unat c + n < 2 ^ 64"
  have u: "unat (c + of_nat k) = unat c + k" if "k \<le> n" for k
  proof -
    have "unat (c + of_nat k) = (unat c + k) mod 2 ^ 64"
      by (simp add: unat_word_ariths unat_of_nat mod_add_right_eq)
    also have "\<dots> = unat c + k" using b that by simp
    finally show ?thesis .
  qed
  have "sorted_wrt (\<lambda>x y. c + of_nat x < c + of_nat y) [1 ..< Suc n]"
  proof (rule sorted_wrt_mono_rel[where P = "(<)"])
    show "sorted_wrt (<) [1 ..< Suc n]" by (rule sorted_wrt_upt)
  next
    fix x y assume "x \<in> set [1 ..< Suc n]" "y \<in> set [1 ..< Suc n]" "x < y"
    then have "x \<le> n" "y \<le> n" by auto
    then show "c + of_nat x < c + of_nat y" using \<open>x < y\<close> by (simp add: word_less_nat_alt u)
  qed
  then have "sorted_wrt (<) (map (\<lambda>k. c + of_nat k) [1 ..< Suc n])"
    by (simp only: sorted_wrt_map)
  moreover have "\<forall>i \<in> set (map (\<lambda>k. c + of_nat k) [1 ..< Suc n]). c < i"
    by (auto simp add: word_less_nat_alt u)
  ultimately show ?thesis by blast
qed

text \<open>
  Claim C7. Start from a loop whose timer collection is sorted (the loop that
  \<^verbatim>\<open>CreateLoop\<close> returns is one) and make any sequence of calls of
  \<^verbatim>\<open>AddTimer\<close> and \<^verbatim>\<open>RemoveTimer\<close>. No call panics, the
  collection is sorted ascending by deadline after every call, and the ids that
  \<^verbatim>\<open>AddTimer\<close> returns are strictly increasing, hence unique, and greater
  than every id given before. The id is a 64-bit counter: the statement is for sequences
  that do not use up the counter, that is, fewer than \<open>2 ^ 64\<close> additions in the
  life of the loop.
\<close>

theorem timers_sorted_and_ids_increasing:
  assumes "timers_sorted l"
    and "unat (timer_id_counter l) + length (filter is_add ops) < 2 ^ 64"
  shows "\<exists>ids ls. run_ops ops l = Inr (ids, ls) \<and> length ls = length ops
           \<and> (\<forall>l' \<in> set ls. timers_sorted l')
           \<and> sorted_wrt (<) ids \<and> distinct ids
           \<and> (\<forall>i \<in> set ids. timer_id_counter l < i)"
proof -
  from run_ops_sorted[OF assms(1), of ops] obtain ids ls where
    r: "run_ops ops l = Inr (ids, ls)" and len: "length ls = length ops"
    and so: "\<forall>l' \<in> set ls. timers_sorted l'"
    and ids: "ids = map (\<lambda>k. timer_id_counter l + of_nat k) [1 ..< Suc (length (filter is_add ops))]"
    by blast
  from ids_increasing[OF assms(2)] ids
  have inc: "sorted_wrt (<) ids" and gt: "\<forall>i \<in> set ids. timer_id_counter l < i" by simp_all
  from inc have "distinct ids" by (simp add: strict_sorted_iff)
  with r len so inc gt show ?thesis by blast
qed

theorem timers_sorted_and_ids_increasing_witness:
  "\<exists>ids ls. run_ops sample_ops CreateLoop = Inr (ids, ls) \<and> length ls = length sample_ops
     \<and> (\<forall>l' \<in> set ls. timers_sorted l')
     \<and> sorted_wrt (<) ids \<and> distinct ids
     \<and> (\<forall>i \<in> set ids. timer_id_counter CreateLoop < i)"
  using timers_sorted_and_ids_increasing[of CreateLoop sample_ops]
  by (simp add: timers_sorted_def CreateLoop_def sample_ops_def)

subsection \<open>Draining the output buffer\<close>

declare chunks.simps [simp del]

lemma chunks_Nil: "chunks k [] = []"
  by (simp add: chunks.simps)

lemma chunks_step: "0 < k \<Longrightarrow> xs \<noteq> [] \<Longrightarrow> chunks k xs = take k xs # chunks k (drop k xs)"
  by (subst chunks.simps) simp

lemma concat_chunks: "0 < k \<Longrightarrow> concat (chunks k xs) = xs"
proof (induction k xs rule: chunks.induct)
  case (1 k xs)
  show ?case
  proof (cases "xs = []")
    case True
    then show ?thesis by (simp add: chunks_Nil)
  next
    case False
    with 1 show ?thesis by (simp add: chunks_step)
  qed
qed

lemma ceil_div_step:
  assumes "0 < k" "0 < (n::nat)"
  shows "(n + k - 1) div k = Suc ((n - k + k - 1) div k)"
proof -
  have a: "n + k - 1 = (n - 1) + k" using assms by simp
  have "((n - 1) + k) div k = (n - 1) div k + 1"
    by (rule div_add_self2) (use assms in simp)
  then have b: "(n + k - 1) div k = Suc ((n - 1) div k)"
    by (simp only: a Suc_eq_plus1)
  show ?thesis
  proof (cases "k \<le> n")
    case True
    then have "n - k + k - 1 = n - 1" by simp
    with b show ?thesis by simp
  next
    case False
    then have "n - k + k - 1 = k - 1" "n - 1 < k" by simp_all
    with b assms show ?thesis by simp
  qed
qed

lemma length_chunks: "0 < k \<Longrightarrow> length (chunks k xs) = (length xs + k - 1) div k"
proof (induction k xs rule: chunks.induct)
  case (1 k xs)
  show ?case
  proof (cases "xs = []")
    case True
    with 1 show ?thesis by (simp add: chunks_Nil)
  next
    case False
    then have pos: "0 < length xs" by simp
    from 1 False have ih: "length (chunks k (drop k xs)) = (length xs - k + k - 1) div k"
      by simp
    have "length (chunks k xs) = Suc (length (chunks k (drop k xs)))"
      using False 1(2) by (simp add: chunks_step)
    with ih ceil_div_step[OF 1(2) pos] show ?thesis by simp
  qed
qed

lemma write_to_tty_accept:
  assumes "0 < k" "write_buf l \<noteq> []" "controlling_term l \<noteq> None"
  shows "write_to_tty (accept k) (l, tr) =
    (None, l\<lparr>write_buf := drop k (write_buf l)\<rparr>, tr @ [TtyWrite (take k (write_buf l))])"
  using assms
  by (auto simp add: write_to_tty_def write_ignoring_temporary_errors_def accept_def Let_def min_def)


lemma drain_chunks:
  "0 < k \<Longrightarrow> OnWriteComplete cbs = Some f \<Longrightarrow> \<forall>l. fst (f l) = None \<Longrightarrow>
   controlling_term l \<noteq> None \<Longrightarrow> write_buf l = buf \<Longrightarrow> buf \<noteq> [] \<Longrightarrow>
    drain cbs (accept k) (length (chunks k buf)) (l, tr) =
      (None, snd (f (l\<lparr>write_buf := []\<rparr>)),
       tr @ map TtyWrite (chunks k buf) @ [Called OnWriteCompleteN])"
proof (induction k buf arbitrary: l tr rule: chunks.induct)
  case (1 k xs)
  note k = \<open>0 < k\<close> and cb = \<open>OnWriteComplete cbs = Some f\<close> and f = \<open>\<forall>l. fst (f l) = None\<close>
    and ct = \<open>controlling_term l \<noteq> None\<close> and wb = \<open>write_buf l = xs\<close> and ne = \<open>xs \<noteq> []\<close>
  from ne k have st: "chunks k xs = take k xs # chunks k (drop k xs)"
    by (simp add: chunks_step)
  have w: "write_to_tty (accept k) (l, tr) =
      (None, l\<lparr>write_buf := drop k xs\<rparr>, tr @ [TtyWrite (take k xs)])"
    using write_to_tty_accept[of k l tr] k ct wb ne by simp
  show ?case
  proof (cases "drop k xs = []")
    case True
    obtain l2 where fl: "f (l\<lparr>write_buf := []\<rparr>) = (None, l2)"
      using f by (metis prod.collapse)
    have "write_stage cbs True (accept k) (l, tr) =
        (None, l2, tr @ [TtyWrite (take k xs), Called OnWriteCompleteN])"
      using True w wb ne cb by (simp add: write_stage_def fl)
    then show ?thesis
      using True by (simp add: st chunks_Nil fl)
  next
    case False
    let ?l1 = "l\<lparr>write_buf := drop k xs\<rparr>"
    have ws: "write_stage cbs True (accept k) (l, tr) = (None, ?l1, tr @ [TtyWrite (take k xs)])"
      using False w wb ne cb by (simp add: write_stage_def)
    have "drain cbs (accept k) (length (chunks k (drop k xs))) (?l1, tr @ [TtyWrite (take k xs)]) =
      (None, snd (f (?l1\<lparr>write_buf := []\<rparr>)),
       (tr @ [TtyWrite (take k xs)]) @ map TtyWrite (chunks k (drop k xs)) @ [Called OnWriteCompleteN])"
      using "1.IH"[of ?l1 "tr @ [TtyWrite (take k xs)]"] k cb f ct ne False by simp
    then show ?thesis using ws by (simp add: st)
  qed
qed


lemma drain_partial:
  "0 < k \<Longrightarrow> controlling_term l \<noteq> None \<Longrightarrow> m * k < length (write_buf l) \<Longrightarrow>
   drain cbs (accept k) m (l, tr) =
     (None, l\<lparr>write_buf := drop (m * k) (write_buf l)\<rparr>,
      tr @ map TtyWrite (take m (chunks k (write_buf l))))"
proof (induction m arbitrary: l tr)
  case 0
  then show ?case by simp
next
  case (Suc m)
  from Suc.prems have ne: "write_buf l \<noteq> []" and d: "drop k (write_buf l) \<noteq> []" by auto
  let ?l1 = "l\<lparr>write_buf := drop k (write_buf l)\<rparr>"
  have w: "write_to_tty (accept k) (l, tr) = (None, ?l1, tr @ [TtyWrite (take k (write_buf l))])"
    using write_to_tty_accept[of k l tr] Suc.prems ne by simp
  have ws: "write_stage cbs True (accept k) (l, tr) = (None, ?l1, tr @ [TtyWrite (take k (write_buf l))])"
    using w d ne by (simp add: write_stage_def split: option.splits)
  have "m * k < length (write_buf ?l1)" using Suc.prems by simp
  from Suc.IH[of ?l1 "tr @ [TtyWrite (take k (write_buf l))]", OF Suc.prems(1) _ this] Suc.prems(2)
  have "drain cbs (accept k) m (?l1, tr @ [TtyWrite (take k (write_buf l))]) =
     (None, ?l1\<lparr>write_buf := drop (m * k) (write_buf ?l1)\<rparr>,
      (tr @ [TtyWrite (take k (write_buf l))]) @ map TtyWrite (take m (chunks k (write_buf ?l1))))"
    by simp
  then show ?case
    using ws ne Suc.prems(1) by (simp add: chunks_step[of k "write_buf l"] add.commute)
qed

lemma drain_empty: "write_buf (fst s) = [] \<Longrightarrow> drain cbs wr j s = (None, s)"
  by (induction j) (simp_all add: write_stage_def)

lemma drain_add:
  "drain cbs wr n s = (None, s') \<Longrightarrow> drain cbs wr (n + j) s = drain cbs wr j s'"
proof (induction n arbitrary: s)
  case 0
  then show ?case by simp
next
  case (Suc n)
  obtain r s1 where ws: "write_stage cbs True wr s = (r, s1)" by (cases "write_stage cbs True wr s")
  show ?case
  proof (cases r)
    case None
    with ws Suc.prems have "drain cbs wr n s1 = (None, s')" by simp
    from Suc.IH[OF this] ws None show ?thesis by simp
  next
    case (Some e)
    with ws Suc.prems show ?thesis by simp
  qed
qed

lemma below_ceil_div:
  assumes "0 < k" "m < (n + k - 1) div k"
  shows "m * k < (n::nat)"
proof -
  from assms have "Suc m * k \<le> n + k - 1"
    by (metis Suc_leI less_eq_div_iff_mult_less_eq)
  then show ?thesis using assms(1) by simp
qed

text \<open>
  Claim C6. Let the buffer hold \<open>N\<close> bytes, let the write primitive accept \<open>k\<close>
  bytes for each call with \<open>0 < k < N\<close>, let the terminal be present, and let the
  write-complete callback return no error and leave the buffer alone. Then
  \<open>\<lceil>N / k\<rceil>\<close> drains make exactly that many write calls, which write the pieces
  of the buffer in order (their concatenation is the buffer); the buffer is then empty,
  and the write-complete callback has been invoked exactly once, after the last write.
  After \<open>m\<close> drains, for every smaller \<open>m\<close>, the buffer holds the bytes not yet
  written, from its head on, and the callback has not been invoked. More drains after
  the buffer is empty change nothing.
\<close>

theorem drain_writes_everything_in_order:
  assumes "0 < k" and "k < length (write_buf l)" and "controlling_term l \<noteq> None"
    and "OnWriteComplete cbs = Some f"
    and "\<forall>l. fst (f l) = None \<and> write_buf (snd (f l)) = write_buf l"
  shows "drain cbs (accept k) ((length (write_buf l) + k - 1) div k) (l, tr)
           = (None, snd (f (l\<lparr>write_buf := []\<rparr>)),
              tr @ map TtyWrite (chunks k (write_buf l)) @ [Called OnWriteCompleteN])
       \<and> write_buf (snd (f (l\<lparr>write_buf := []\<rparr>))) = []
       \<and> length (chunks k (write_buf l)) = (length (write_buf l) + k - 1) div k
       \<and> concat (chunks k (write_buf l)) = write_buf l
       \<and> (\<forall>m < (length (write_buf l) + k - 1) div k.
            drain cbs (accept k) m (l, tr)
              = (None, l\<lparr>write_buf := drop (m * k) (write_buf l)\<rparr>,
                 tr @ map TtyWrite (take m (chunks k (write_buf l))))
            \<and> drop (m * k) (write_buf l) \<noteq> [])
       \<and> (\<forall>j. drain cbs (accept k) ((length (write_buf l) + k - 1) div k + j) (l, tr)
              = drain cbs (accept k) ((length (write_buf l) + k - 1) div k) (l, tr))"
proof -
  let ?n = "(length (write_buf l) + k - 1) div k"
  from assms(2) have ne: "write_buf l \<noteq> []" by auto
  from assms(5) have f1: "\<forall>l. fst (f l) = None" by simp
  have len: "length (chunks k (write_buf l)) = ?n" using assms(1) by (rule length_chunks)
  have d: "drain cbs (accept k) ?n (l, tr)
      = (None, snd (f (l\<lparr>write_buf := []\<rparr>)),
         tr @ map TtyWrite (chunks k (write_buf l)) @ [Called OnWriteCompleteN])"
    using drain_chunks[OF assms(1) assms(4) f1 assms(3) refl ne, of tr] len by simp
  have e: "write_buf (snd (f (l\<lparr>write_buf := []\<rparr>))) = []" using assms(5) by simp
  have p: "\<forall>m < ?n. drain cbs (accept k) m (l, tr)
              = (None, l\<lparr>write_buf := drop (m * k) (write_buf l)\<rparr>,
                 tr @ map TtyWrite (take m (chunks k (write_buf l))))
            \<and> drop (m * k) (write_buf l) \<noteq> []"
  proof (intro allI impI)
    fix m assume "m < ?n"
    with assms(1) have "m * k < length (write_buf l)" by (rule below_ceil_div)
    with drain_partial[OF assms(1) assms(3) this, of cbs tr]
    show "drain cbs (accept k) m (l, tr)
              = (None, l\<lparr>write_buf := drop (m * k) (write_buf l)\<rparr>,
                 tr @ map TtyWrite (take m (chunks k (write_buf l))))
            \<and> drop (m * k) (write_buf l) \<noteq> []" by simp
  qed
  have j: "\<forall>j. drain cbs (accept k) (?n + j) (l, tr) = drain cbs (accept k) ?n (l, tr)"
    using drain_add[OF d] drain_empty[of "(snd (f (l\<lparr>write_buf := []\<rparr>)), tr @ map TtyWrite (chunks k (write_buf l)) @ [Called OnWriteCompleteN])"] e d
    by simp
  from d e len concat_chunks[OF assms(1)] p j show ?thesis by blast
qed

theorem drain_writes_everything_in_order_witness:
  "drain (no_callbacks\<lparr>OnWriteComplete := Some write_complete_noop\<rparr>) (accept 2) 3
       (sample_loop\<lparr>write_buf := ''hello''\<rparr>, [])
     = (None, sample_loop\<lparr>write_buf := []\<rparr>,
        [TtyWrite ''he'', TtyWrite ''ll'', TtyWrite ''o'', Called OnWriteCompleteN])"
  using drain_writes_everything_in_order
      [where k = 2 and l = "sample_loop\<lparr>write_buf := ''hello''\<rparr>"
         and cbs = "no_callbacks\<lparr>OnWriteComplete := Some write_complete_noop\<rparr>"
         and f = write_complete_noop and tr = "[]"]
  by (simp add: sample_loop_def CreateLoop_def no_callbacks_def write_complete_noop_def
      chunks.simps numeral_3_eq_3 write_stage_def write_to_tty_def
      write_ignoring_temporary_errors_def accept_def)

subsection \<open>What the steps of the main loop keep\<close>





















































subsection \<open>Concrete runs evaluated\<close>

lemmas run_defs =
  Run_def run_init_def run_loop_def iteration_def timers_and_wait_def write_stage_def
  read_stage_def received_data_def signal_stage_def read_signals_def handle_rune_def
  on_SIGINT_def shutdown_def flush_def write_to_tty_def write_ignoring_temporary_errors_def
  read_ignoring_temporary_errors_def accept_def queue_write_to_tty_def restore_term_def
  reset_signals_def close_pipe_def Quit_def Let_def

lemmas sample_defs =
  sample_ext_def sample_env_def no_callbacks_def CreateLoop_def flush_ready_def
  turn_sigint_def init_ok_def init_fails_def loop_after_run_def

subsection \<open>The shutdown sequence\<close>




subsection \<open>Quit in a callback\<close>

lemmas quit_defs =
  turn_text_def init_quits_def text_quits7_def timer_repeating_def timer_quits7_def
  turn_timeout_def timer_a_def dispatch_timers_def remove_fired_def sort_timers_def
  update_deadline_def deadline_of_def



text \<open>
  The same with a one-shot timer: the dispatch leaves the collection empty, the read of
  its first entry at line 382 panics, and \<^verbatim>\<open>Run\<close> does not return; the
  deferred functions run as the panic goes on.
\<close>

lemma run_with_one_shot_timer_quit:
  "Run sample_ext (sample_env\<lparr>turns := [turn_timeout]\<rparr>)
      (no_callbacks\<lparr>TimerCallback := timer_quits7\<rparr>)
      (CreateLoop\<lparr>timers := [Some timer_a]\<rparr>, [])
     = Some (Some (Panic ''index out of range''),
             loop_after_run\<lparr>exit_code := 7\<rparr>,
             [Called (TimerCallbackN 1), TtyWrite ''<set>'', TtyWrite ''<reset>'',
              TermRestore (Some (Term 3)), SignalsReset, PipeClosed])"
  by (simp add: run_defs sample_defs quit_defs)




end
